theory Spec2Isabelle
  imports Main
begin

section \<open>Values, responses and the outside world\<close>

text \<open>
  The provider's JSON bodies are duck-typed dictionaries in the source, so the values the
  code reads out of them are modelled as JSON values. A parsed object is an association
  list read with \<open>map_of\<close>. Numbers are integers (no body the code inspects is compared
  with or computed on as a number). A text is the list of its code points, which are
  taken below 256; the bytes of a file are a list of the same type.
\<close>

datatype json =
    JNull
  | JBool bool
  | JInt int
  | JStr string
  | JList "json list"
  | JDict "(string \<times> json) list"

text \<open>The exceptions that can leave the modelled functions.\<close>

datatype exn =
    OSError
  | UnicodeDecodeError
  | JSONDecodeError
  | AttributeError
  | MissingSchema
  | ConnectionError

text \<open>Python truthiness of a JSON value (\<open>if v\<close>, \<open>a and b\<close>).\<close>

fun truthy :: "json \<Rightarrow> bool" where
  "truthy JNull = False"
| "truthy (JBool b) = b"
| "truthy (JInt n) = (n \<noteq> 0)"
| "truthy (JStr s) = (s \<noteq> [])"
| "truthy (JList xs) = (xs \<noteq> [])"
| "truthy (JDict kvs) = (kvs \<noteq> [])"

text \<open>
  \<open>d.get(k, default)\<close>: only a dictionary has the method; on any other value the
  attribute lookup raises.
\<close>

fun py_get :: "json \<Rightarrow> string \<Rightarrow> json \<Rightarrow> exn + json" where
  "py_get (JDict kvs) k dflt = Inr (case map_of kvs k of None \<Rightarrow> dflt | Some v \<Rightarrow> v)"
| "py_get _ k dflt = Inl AttributeError"

text \<open>\<open>k in d\<close> for a dictionary \<open>d\<close> (the only case reached in the source).\<close>

fun py_has_key :: "json \<Rightarrow> string \<Rightarrow> bool" where
  "py_has_key (JDict kvs) k = (map_of kvs k \<noteq> None)"
| "py_has_key _ k = False"

text \<open>\<open>s.startswith(p)\<close>.\<close>

definition startswith :: "string \<Rightarrow> string \<Rightarrow> bool" where
  "startswith s p = (take (length p) s = p)"

text \<open>
  \<open>s.strip()\<close>: the code points below 256 that Python's \<open>str.isspace\<close> accepts are
  9 to 13, 28 to 32, 133 (next line) and 160 (no-break space).
\<close>

definition py_isspace :: "char \<Rightarrow> bool" where
  "py_isspace c =
     (let n = (of_char c :: nat)
      in (9 \<le> n \<and> n \<le> 13) \<or> (28 \<le> n \<and> n \<le> 32) \<or> n = 133 \<or> n = 160)"

definition py_strip :: "string \<Rightarrow> string" where
  "py_strip s = rev (dropWhile py_isspace (rev (dropWhile py_isspace s)))"



text \<open>
  An HTTP response as the code reads it: the status code, and the parsed body
  (\<open>None\<close> when \<open>response.json()\<close> raises because the body is not JSON).
\<close>

record response =
  status_code :: int
  json_body :: "json option"

text \<open>
  What one Publish Session sees of the provider: the answer to its initialization
  request, the answer to its transfer, and the answer to its k-th status query. A call of
  the HTTP library either raises or returns a response.
\<close>

record session_net =
  init_resp :: "exn + response"
  put_resp :: "exn + response"
  poll_resp :: "nat \<Rightarrow> exn + response"

text \<open>
  The file system and the network of one run. Each session talks to the provider about
  its own video, so the provider's answers are given per video path. \<open>read_text\<close> is
  what reading the file in text mode returns. Opening a file for writing may fail
  (\<open>open_error\<close>), and so may writing a text to it once it is open (\<open>write_error\<close>,
  with the text that is left in the file).
\<close>

record world =
  getsize :: "string \<Rightarrow> exn + int"
  path_exists :: "string \<Rightarrow> bool"
  read_text :: "string \<Rightarrow> exn + string"
  read_bytes :: "string \<Rightarrow> exn + string"
  open_error :: "string \<Rightarrow> exn option"
  write_error :: "string \<Rightarrow> string \<Rightarrow> (exn \<times> string) option"
  net :: "string \<Rightarrow> session_net"

text \<open>
  The observable effects of a session, in order: every call into the HTTP library
  (\<open>CallPost\<close> carries the declared video size and the title of the payload,
  \<open>CallPut\<close> the URL it was handed) and every \<open>time.sleep\<close>.
\<close>

datatype event =
    CallPost int string
  | CallPut "string option"
  | CallGet
  | Sleep nat

section \<open>Path handling\<close>

text \<open>\<open>p.rfind(c)\<close>: the index of the last occurrence, or -1.\<close>

definition rfind :: "string \<Rightarrow> char \<Rightarrow> int" where
  "rfind p c =
     (if c \<in> set p
      then int (length p) - 1 - int (length (takeWhile (\<lambda>x. x \<noteq> c) (rev p)))
      else - 1)"

text \<open>
  \<open>os.path.splitext\<close> (POSIX): the extension starts at the last dot, provided that dot
  comes after the last slash and some character between the slash and the dot is not a
  dot (leading dots of a file name do not start an extension).
\<close>

definition splitext :: "string \<Rightarrow> string \<times> string" where
  "splitext p =
     (let sepIndex = rfind p CHR ''/'';
          dotIndex = rfind p CHR ''.''
      in if dotIndex > sepIndex \<and>
            list_ex (\<lambda>k. p ! k \<noteq> CHR ''.'') [nat (sepIndex + 1) ..< nat dotIndex]
         then (take (nat dotIndex) p, drop (nat dotIndex) p)
         else (p, []))"

text \<open>\<open>os.path.basename\<close> (POSIX): everything after the last slash.\<close>

definition basename :: "string \<Rightarrow> string" where
  "basename p = drop (nat (rfind p CHR ''/'' + 1)) p"

section \<open>upload.py\<close>

definition TRANSCRIPT_EXTENSION :: string where
  "TRANSCRIPT_EXTENSION = ''.txt''"

definition RATE_LIMIT :: json where
  "RATE_LIMIT = JStr ''RATE_LIMIT''"

subsection \<open>Initialization step\<close>

text \<open>
  \<open>initialize_video_post\<close> returns a pair in every branch that returns:
  \<open>("RATE_LIMIT", None)\<close>, \<open>(publish_id, upload_url)\<close> or \<open>(None, None)\<close>.
\<close>

definition initialize_video_post ::
  "session_net \<Rightarrow> int \<Rightarrow> string \<Rightarrow> string \<Rightarrow> event list \<times> (exn + json \<times> string option)" where
  "initialize_video_post nt file_size access_token caption =
     ([CallPost file_size caption],
      case init_resp nt of
        Inl e \<Rightarrow> Inl e
      | Inr response \<Rightarrow>
          if status_code response = 200 then
            (case json_body response of
               None \<Rightarrow> Inl JSONDecodeError
             | Some js \<Rightarrow>
                 (case py_get js ''data'' (JDict []) of
                    Inl e \<Rightarrow> Inl e
                  | Inr data \<Rightarrow>
                      (case (if py_has_key js ''error''
                             then (case py_get js ''error'' JNull of
                                     Inl e \<Rightarrow> Inl e
                                   | Inr error \<Rightarrow>
                                       (case py_get error ''code'' JNull of
                                          Inl e \<Rightarrow> Inl e
                                        | Inr code \<Rightarrow>
                                            Inr (code = JStr ''spam_risk_too_many_pending_share'')))
                             else Inr False) of
                         Inl e \<Rightarrow> Inl e
                       | Inr True \<Rightarrow> Inr (RATE_LIMIT, None)
                       | Inr False \<Rightarrow>
                           (case py_get data ''publish_id'' JNull of
                              Inl e \<Rightarrow> Inl e
                            | Inr publish_id \<Rightarrow>
                                (case py_get data ''upload_url'' JNull of
                                   Inl e \<Rightarrow> Inl e
                                 | Inr upload_url \<Rightarrow>
                                     if truthy publish_id \<and> truthy upload_url then
                                       (case upload_url of
                                          JStr u \<Rightarrow>
                                            Inr (publish_id,
                                                 Some (if \<not> startswith u ''http''
                                                       then ''https://'' @ u else u))
                                        | _ \<Rightarrow> Inl AttributeError)
                                     else Inr (JNull, None))))))
          else Inr (JNull, None))"

subsection \<open>Transfer step\<close>

text \<open>
  \<open>requests.put(url, ...)\<close>: the library turns the URL into text first, and the text
  \<open>None\<close> has no scheme, so a call with \<open>None\<close> raises before anything is sent.
\<close>

definition requests_put :: "session_net \<Rightarrow> string option \<Rightarrow> exn + response" where
  "requests_put nt url = (case url of None \<Rightarrow> Inl MissingSchema | Some u \<Rightarrow> put_resp nt)"

definition upload_video_file ::
  "world \<Rightarrow> string option \<Rightarrow> string \<Rightarrow> string \<Rightarrow> event list \<times> (exn + bool)" where
  "upload_video_file w upload_url video_path caption =
     (case getsize w video_path of
        Inl e \<Rightarrow> ([], Inl e)
      | Inr file_size \<Rightarrow>
          (case read_bytes w video_path of
             Inl e \<Rightarrow> ([], Inl e)
           | Inr file_data \<Rightarrow>
               ([CallPut upload_url],
                case requests_put (net w video_path) upload_url of
                  Inl e \<Rightarrow> Inl e
                | Inr response \<Rightarrow>
                    Inr (status_code response = 200 \<or> status_code response = 201))))"

subsection \<open>Poll step\<close>

text \<open>
  The \<open>while True\<close> loop of \<open>poll_video_status\<close>; \<open>i\<close> counts the queries made so far
  and \<open>tr\<close> collects the effects. The loop has no bound, so not returning is the value
  \<open>None\<close>.
\<close>

partial_function (option) poll_loop ::
  "session_net \<Rightarrow> nat \<Rightarrow> event list \<Rightarrow> (event list \<times> (exn + json)) option" where
  "poll_loop nt i tr =
     (case poll_resp nt i of
        Inl e \<Rightarrow> Some (tr @ [CallGet], Inl e)
      | Inr response \<Rightarrow>
          if status_code response = 200 then
            (case json_body response of
               None \<Rightarrow> Some (tr @ [CallGet], Inl JSONDecodeError)
             | Some js \<Rightarrow>
                 (case py_get js ''data'' (JDict []) of
                    Inl e \<Rightarrow> Some (tr @ [CallGet], Inl e)
                  | Inr data \<Rightarrow>
                      (case py_get data ''status'' JNull of
                         Inl e \<Rightarrow> Some (tr @ [CallGet], Inl e)
                       | Inr status \<Rightarrow>
                           if status \<noteq> JStr ''PROCESSING_UPLOAD''
                           then Some (tr @ [CallGet], Inr status)
                           else poll_loop nt (Suc i) (tr @ [CallGet, Sleep 5]))))
          else if status_code response = 404 then
            Some (tr @ [CallGet], Inr (JStr ''COMPLETED''))
          else poll_loop nt (Suc i) (tr @ [CallGet, Sleep 5]))"

declare poll_loop.simps [code]

definition poll_video_status ::
  "session_net \<Rightarrow> json \<Rightarrow> string \<Rightarrow> (event list \<times> (exn + json)) option" where
  "poll_video_status nt publish_id access_token = poll_loop nt 0 []"

subsection \<open>The Publish Session\<close>

text \<open>
  \<open>not init_result\<close> in \<open>direct_post_video\<close>: \<open>init_result\<close> is always a pair, and a
  tuple of two components is not empty, so it is truthy whatever it holds.
\<close>

definition not_tuple2 :: "'a \<times> 'b \<Rightarrow> bool" where
  "not_tuple2 t = False"

text \<open>The caption artifact of a video, as \<open>direct_post_video\<close> locates it.\<close>

definition txt_file_of :: "string \<Rightarrow> string" where
  "txt_file_of video_path = fst (splitext video_path) @ TRANSCRIPT_EXTENSION"

definition direct_post_video ::
  "world \<Rightarrow> string \<Rightarrow> string \<Rightarrow> (event list \<times> (exn + json)) option" where
  "direct_post_video w video_path access_token =
     (case getsize w video_path of
        Inl e \<Rightarrow> Some ([], Inl e)
      | Inr file_size \<Rightarrow>
          (let txt_file = txt_file_of video_path in
           if \<not> path_exists w txt_file then Some ([], Inr JNull)
           else
             (case read_text w txt_file of
                Inl e \<Rightarrow> Some ([], Inl e)
              | Inr content \<Rightarrow>
                  (let caption = py_strip content in
                   case initialize_video_post (net w video_path) file_size access_token caption of
                     (tr1, Inl e) \<Rightarrow> Some (tr1, Inl e)
                   | (tr1, Inr init_result) \<Rightarrow>
                       if not_tuple2 init_result \<or> fst init_result = RATE_LIMIT
                       then Some (tr1, Inr RATE_LIMIT)
                       else
                         (case init_result of (publish_id, upload_url) \<Rightarrow>
                            (case upload_video_file w upload_url video_path caption of
                               (tr2, Inl e) \<Rightarrow> Some (tr1 @ tr2, Inl e)
                             | (tr2, Inr ok) \<Rightarrow>
                                 if \<not> ok then Some (tr1 @ tr2, Inr JNull)
                                 else
                                   (case poll_video_status (net w video_path) publish_id access_token of
                                      None \<Rightarrow> None
                                    | Some (tr3, Inl e) \<Rightarrow> Some (tr1 @ tr2 @ tr3, Inl e)
                                    | Some (tr3, Inr final_status) \<Rightarrow>
                                        Some (tr1 @ tr2 @ tr3, Inr publish_id))))))))"

subsection \<open>The batch driver and the summary\<close>

text \<open>
  The loop over \<open>as_completed\<close> in \<open>main\<close>: \<open>future.result()\<close> hands back the
  session's return value, or raises again the exception the session ended with; nothing
  in \<open>main\<close> catches it.
\<close>

fun collect_results ::
  "(string \<times> (exn + json)) list \<Rightarrow> (string \<times> json) list \<Rightarrow> exn + (string \<times> json) list" where
  "collect_results [] results = Inr results"
| "collect_results ((f, Inl e) # rest) results = Inl e"
| "collect_results ((f, Inr result) # rest) results = collect_results rest (results @ [(f, result)])"

text \<open>
  All sessions have to end before the executor is left (the loop waits for every future,
  and leaving the \<open>with\<close> block waits for every worker), so a session that never ends
  keeps the driver from returning.
\<close>

fun await_all :: "(string \<times> 'a option) list \<Rightarrow> (string \<times> 'a) list option" where
  "await_all [] = Some []"
| "await_all ((f, None) # rest) = None"
| "await_all ((f, Some r) # rest) = map_option ((#) (f, r)) (await_all rest)"

text \<open>
  One session per file, each on its own part of the world. \<open>order\<close> is the order in
  which the futures complete, as positions in the submitted list.
\<close>

definition run_batch ::
  "world \<Rightarrow> string \<Rightarrow> nat list \<Rightarrow> string list \<Rightarrow> (exn + (string \<times> json) list) option" where
  "run_batch w access_token order files =
     (case await_all (map (\<lambda>f. (f, direct_post_video w f access_token)) files) of
        None \<Rightarrow> None
      | Some finished \<Rightarrow>
          Some (collect_results (map (\<lambda>i. case finished ! i of (f, tr, r) \<Rightarrow> (f, r)) order) []))"

definition completion_order :: "nat list \<Rightarrow> nat \<Rightarrow> bool" where
  "completion_order order n = (distinct order \<and> set order = set [0 ..< n])"

text \<open>The two lists of the summary, and what is printed of them.\<close>

definition success_of :: "(string \<times> json) list \<Rightarrow> string list" where
  "success_of results = map (\<lambda>(f, pub). basename f) (filter (\<lambda>(f, pub). truthy pub \<and> pub \<noteq> RATE_LIMIT) results)"

definition failures_of :: "(string \<times> json) list \<Rightarrow> (string \<times> json) list" where
  "failures_of results = map (\<lambda>(f, pub). (basename f, pub)) (filter (\<lambda>(f, pub). pub = JNull \<or> pub = RATE_LIMIT) results)"

record summary =
  total_processed :: nat
  successfully_uploaded :: nat
  uploaded_files :: "string list"
  failed_uploads :: nat
  failed_files :: "(string \<times> json) list"

definition upload_summary :: "(string \<times> json) list \<Rightarrow> summary" where
  "upload_summary results =
     \<lparr> total_processed = length results,
       successfully_uploaded = length (success_of results),
       uploaded_files = success_of results,
       failed_uploads = length (failures_of results),
       failed_files = failures_of results \<rparr>"

subsection \<open>PKCE\<close>

text \<open>
  The random source is the sequence of its draws; \<open>random.choice(seq)\<close> takes the element
  at a position below \<open>len(seq)\<close>. The hash is the library's and is a parameter.
\<close>

definition ascii_letters :: string where
  "ascii_letters = ''abcdefghijklmnopqrstuvwxyzABCDEFGHIJKLMNOPQRSTUVWXYZ''"

definition digits :: string where
  "digits = ''0123456789''"

definition random_choice :: "(nat \<Rightarrow> nat) \<Rightarrow> nat \<Rightarrow> 'a list \<Rightarrow> 'a" where
  "random_choice rng k seq = seq ! (rng k mod length seq)"

definition generate_code_verifier :: "(nat \<Rightarrow> nat) \<Rightarrow> int \<Rightarrow> string" where
  "generate_code_verifier rng len =
     (let allowed = ascii_letters @ digits @ ''-._~''
      in map (\<lambda>k. random_choice rng k allowed) [0 ..< nat len])"

definition generate_code_verifier_default :: "(nat \<Rightarrow> nat) \<Rightarrow> string" where
  "generate_code_verifier_default rng = generate_code_verifier rng 64"

definition hexdigest :: "string \<Rightarrow> string" where
  "hexdigest bs =
     concat (map (\<lambda>b. [''0123456789abcdef'' ! ((of_char b :: nat) div 16),
                        ''0123456789abcdef'' ! ((of_char b :: nat) mod 16)]) bs)"

definition generate_code_challenge :: "(string \<Rightarrow> string) \<Rightarrow> string \<Rightarrow> string" where
  "generate_code_challenge sha256 code_verifier = hexdigest (sha256 code_verifier)"

definition generate_state :: "(nat \<Rightarrow> nat) \<Rightarrow> int \<Rightarrow> string" where
  "generate_state rng len =
     (let allowed = ascii_letters @ digits
      in map (\<lambda>k. random_choice rng k allowed) [0 ..< nat len])"

text \<open>
  The first three lines of \<open>get_auth_code_default\<close>: verifier, challenge and state of
  one authorization attempt. The state is drawn after the 64 draws of the verifier.
\<close>

definition auth_session :: "(string \<Rightarrow> string) \<Rightarrow> (nat \<Rightarrow> nat) \<Rightarrow> string \<times> string \<times> string" where
  "auth_session sha256 rng =
     (let code_verifier = generate_code_verifier_default rng;
          code_challenge = generate_code_challenge sha256 code_verifier;
          state = generate_state (\<lambda>k. rng (k + 64)) 16
      in (code_verifier, code_challenge, state))"

text \<open>The character set the specification names: letters, digits, and the four marks.\<close>

definition unreserved :: "char \<Rightarrow> bool" where
  "unreserved c =
     (let n = (of_char c :: nat)
      in (65 \<le> n \<and> n \<le> 90) \<or> (97 \<le> n \<and> n \<le> 122) \<or> (48 \<le> n \<and> n \<le> 57)
         \<or> c = CHR ''-'' \<or> c = CHR ''.'' \<or> c = CHR ''_'' \<or> c = CHR ''~'')"

section \<open>transcribe.py\<close>





section \<open>Vocabulary of the properties\<close>

text \<open>
  What a status query's answer says, read the way \<open>poll_video_status\<close> reads it: a
  200 answer whose \<open>data.status\<close> is \<open>s\<close>; an answer with a given status code; an answer
  after which the loop sleeps and asks again.
\<close>

definition reports_status :: "exn + response \<Rightarrow> json \<Rightarrow> bool" where
  "reports_status a s =
     (case a of
        Inl e \<Rightarrow> False
      | Inr r \<Rightarrow>
          status_code r = 200 \<and>
          (case json_body r of
             None \<Rightarrow> False
           | Some js \<Rightarrow>
               (case py_get js ''data'' (JDict []) of
                  Inl e \<Rightarrow> False
                | Inr data \<Rightarrow> py_get data ''status'' JNull = Inr s)))"

definition has_status_code :: "exn + response \<Rightarrow> int \<Rightarrow> bool" where
  "has_status_code a c = (case a of Inl e \<Rightarrow> False | Inr r \<Rightarrow> status_code r = c)"

definition keeps_polling :: "exn + response \<Rightarrow> bool" where
  "keeps_polling a =
     (reports_status a (JStr ''PROCESSING_UPLOAD'') \<or>
      (case a of Inl e \<Rightarrow> False | Inr r \<Rightarrow> status_code r \<noteq> 200 \<and> status_code r \<noteq> 404))"

text \<open>
  An initialization answer that carries the provider's rate-limit error code: its body is
  an object whose \<open>error\<close> object has the code \<open>spam_risk_too_many_pending_share\<close>.
\<close>

fun rate_limit_body :: "json \<Rightarrow> bool" where
  "rate_limit_body (JDict kvs) =
     (case map_of kvs ''error'' of
        Some (JDict e) \<Rightarrow> map_of e ''code'' = Some (JStr ''spam_risk_too_many_pending_share'')
      | _ \<Rightarrow> False)"
| "rate_limit_body _ = False"

definition carries_rate_limit_code :: "response \<Rightarrow> bool" where
  "carries_rate_limit_code r = (case json_body r of None \<Rightarrow> False | Some js \<Rightarrow> rate_limit_body js)"

section \<open>An example run\<close>

text \<open>
  A world with one video per behaviour of the provider: \<open>a.mp4\<close> is rate limited,
  \<open>b.mp4\<close> is published after two rounds of processing, \<open>c.mp4\<close> gets a 500 at
  initialization, \<open>d.mp4\<close> is reported failed by the status endpoint, \<open>e.mp4\<close> has no
  caption file, \<open>f.mp4\<close> loses the connection at initialization, \<open>g.mp4\<close> gets the
  rate-limit code with status 403, any other video gets one round of processing and then
  a 404, and \<open>missing.mp4\<close> is not on disk.
\<close>

definition status_body :: "string \<Rightarrow> json" where
  "status_body s = JDict [(''data'', JDict [(''status'', JStr s)])]"

definition http :: "int \<Rightarrow> json option \<Rightarrow> exn + response" where
  "http c b = Inr \<lparr> status_code = c, json_body = b \<rparr>"

definition init_ok :: "exn + response" where
  "init_ok = http 200 (Some (JDict [(''data'',
       JDict [(''publish_id'', JStr ''p1''), (''upload_url'', JStr ''upload.example/x'')])]))"

definition init_rate_limited :: "int \<Rightarrow> exn + response" where
  "init_rate_limited c = http c (Some (JDict [(''error'',
       JDict [(''code'', JStr ''spam_risk_too_many_pending_share'')])]))"

definition polls_published :: "nat \<Rightarrow> exn + response" where
  "polls_published k = http 200 (Some (status_body (if k < 2 then ''PROCESSING_UPLOAD'' else ''PUBLISH_COMPLETE'')))"

definition polls_failed :: "nat \<Rightarrow> exn + response" where
  "polls_failed k = http 200 (Some (status_body ''FAILED''))"

definition polls_gone :: "nat \<Rightarrow> exn + response" where
  "polls_gone k = (if k = 0 then http 200 (Some (status_body ''PROCESSING_UPLOAD'')) else http 404 None)"

definition session :: "exn + response \<Rightarrow> (nat \<Rightarrow> exn + response) \<Rightarrow> session_net" where
  "session i p = \<lparr> init_resp = i, put_resp = http 201 None, poll_resp = p \<rparr>"

definition example_world :: world where
  "example_world =
     \<lparr> getsize = (\<lambda>p. if p = ''/v/missing.mp4'' then Inl OSError else Inr 1000),
       path_exists = (\<lambda>p. p \<noteq> ''/v/e.txt''),
       read_text = (\<lambda>p. Inr '' hello #tag  ''),
       read_bytes = (\<lambda>p. Inr ''bytes''),
       open_error = (\<lambda>p. None),
       write_error = (\<lambda>p s. None),
       net = (\<lambda>p. if p = ''/v/a.mp4'' then session (init_rate_limited 200) polls_published
                   else if p = ''/v/b.mp4'' then session init_ok polls_published
                   else if p = ''/v/c.mp4'' then session (http 500 None) polls_published
                   else if p = ''/v/d.mp4'' then session init_ok polls_failed
                   else if p = ''/v/f.mp4'' then session (Inl ConnectionError) polls_published
                   else if p = ''/v/g.mp4'' then session (init_rate_limited 403) polls_published
                   else session init_ok polls_gone) \<rparr>"

section \<open>The poll loop\<close>

lemma poll_loop_skip:
  assumes "keeps_polling (poll_resp nt i)"
  shows "poll_loop nt i tr = poll_loop nt (Suc i) (tr @ [CallGet, Sleep 5])"
  using assms
  by (subst poll_loop.simps)
     (auto simp: keeps_polling_def reports_status_def split: sum.splits option.splits)

lemma poll_loop_skips:
  assumes "\<forall>j<n. keeps_polling (poll_resp nt (i + j))"
  shows "poll_loop nt i tr = poll_loop nt (i + n) (tr @ concat (replicate n [CallGet, Sleep 5]))"
  using assms
proof (induction n arbitrary: i tr)
  case 0
  then show ?case by simp
next
  case (Suc n)
  have first: "keeps_polling (poll_resp nt i)"
    using Suc.prems by (metis add.right_neutral zero_less_Suc)
  have rest: "\<forall>j<n. keeps_polling (poll_resp nt (Suc i + j))"
    using Suc.prems by (metis Suc_less_eq add_Suc_right add_Suc)
  have "poll_loop nt i tr = poll_loop nt (Suc i) (tr @ [CallGet, Sleep 5])"
    by (rule poll_loop_skip [OF first])
  also have "\<dots> = poll_loop nt (Suc i + n) ((tr @ [CallGet, Sleep 5]) @ concat (replicate n [CallGet, Sleep 5]))"
    by (rule Suc.IH [OF rest])
  finally show ?case by simp
qed

lemma poll_loop_404:
  assumes "has_status_code (poll_resp nt i) 404"
  shows "poll_loop nt i tr = Some (tr @ [CallGet], Inr (JStr ''COMPLETED''))"
  using assms
  by (subst poll_loop.simps) (auto simp: has_status_code_def split: sum.splits)

lemma poll_loop_terminal:
  assumes "reports_status (poll_resp nt i) s" and "s \<noteq> JStr ''PROCESSING_UPLOAD''"
  shows "poll_loop nt i tr = Some (tr @ [CallGet], Inr s)"
  using assms
  by (subst poll_loop.simps)
     (auto simp: reports_status_def split: sum.splits option.splits)

text \<open>
  C7. A status query answered with 404, be it the first query or one that follows any
  number of rounds in which the loop kept polling, ends the poll step at once with
  \<open>COMPLETED\<close>: the effects end with that query, with no wait and no query after it.
\<close>

theorem poll_404_completed:
  assumes "\<forall>j<n. keeps_polling (poll_resp nt j)"
    and "has_status_code (poll_resp nt n) 404"
  shows "poll_video_status nt publish_id access_token =
           Some (concat (replicate n [CallGet, Sleep 5]) @ [CallGet], Inr (JStr ''COMPLETED''))"
proof -
  have "poll_loop nt 0 [] = poll_loop nt (0 + n) ([] @ concat (replicate n [CallGet, Sleep 5]))"
    by (rule poll_loop_skips) (simp add: assms(1))
  also have "\<dots> = Some (concat (replicate n [CallGet, Sleep 5]) @ [CallGet], Inr (JStr ''COMPLETED''))"
    using poll_loop_404 [OF assms(2)] by simp
  finally show ?thesis by (simp add: poll_video_status_def)
qed

theorem poll_404_completed_witness:
  "keeps_polling (polls_gone 0) \<and> has_status_code (polls_gone 1) 404
   \<and> poll_video_status (session init_ok polls_gone) (JStr ''p1'') ''tok''
       = Some ([CallGet, Sleep 5, CallGet], Inr (JStr ''COMPLETED''))"
proof -
  have k: "\<forall>j<1. keeps_polling (poll_resp (session init_ok polls_gone) j)"
    by (simp add: session_def) code_simp
  have g: "has_status_code (poll_resp (session init_ok polls_gone) 1) 404"
    by code_simp
  have k0: "keeps_polling (polls_gone 0)" and g1: "has_status_code (polls_gone 1) 404"
    by code_simp+
  show ?thesis
    using poll_404_completed [OF k g, of "JStr ''p1''" "''tok''"] k0 g1 by simp
qed

text \<open>
  C8. When the first two status queries report \<open>PROCESSING_UPLOAD\<close> and the third
  reports any other status, the poll step returns that status after exactly two waits
  of 5: one after each processing answer, none after the last.
\<close>

theorem poll_two_waits:
  assumes "reports_status (poll_resp nt 0) (JStr ''PROCESSING_UPLOAD'')"
    and "reports_status (poll_resp nt 1) (JStr ''PROCESSING_UPLOAD'')"
    and "reports_status (poll_resp nt 2) s"
    and "s \<noteq> JStr ''PROCESSING_UPLOAD''"
  shows "poll_video_status nt publish_id access_token =
           Some ([CallGet, Sleep 5, CallGet, Sleep 5, CallGet], Inr s)"
proof -
  have k0: "keeps_polling (poll_resp nt 0)" and k1: "keeps_polling (poll_resp nt (Suc 0))"
    using assms(1,2) by (simp_all add: keeps_polling_def)
  have "poll_loop nt 0 [] = poll_loop nt (Suc 0) ([] @ [CallGet, Sleep 5])"
    by (rule poll_loop_skip [OF k0])
  also have "\<dots> = poll_loop nt (Suc (Suc 0)) (([] @ [CallGet, Sleep 5]) @ [CallGet, Sleep 5])"
    by (rule poll_loop_skip [OF k1])
  also have "\<dots> = Some ((([] @ [CallGet, Sleep 5]) @ [CallGet, Sleep 5]) @ [CallGet], Inr s)"
    using assms(3,4) by (intro poll_loop_terminal) (simp_all add: numeral_2_eq_2)
  finally show ?thesis by (simp add: poll_video_status_def)
qed

theorem poll_two_waits_witness:
  "reports_status (polls_published 0) (JStr ''PROCESSING_UPLOAD'')
   \<and> reports_status (polls_published 1) (JStr ''PROCESSING_UPLOAD'')
   \<and> reports_status (polls_published 2) (JStr ''PUBLISH_COMPLETE'')
   \<and> poll_video_status (session init_ok polls_published) (JStr ''p1'') ''tok''
       = Some ([CallGet, Sleep 5, CallGet, Sleep 5, CallGet], Inr (JStr ''PUBLISH_COMPLETE''))"
proof -
  have a0: "reports_status (polls_published 0) (JStr ''PROCESSING_UPLOAD'')"
    and a1: "reports_status (polls_published 1) (JStr ''PROCESSING_UPLOAD'')"
    and a2: "reports_status (polls_published 2) (JStr ''PUBLISH_COMPLETE'')"
    by code_simp+
  have p: "poll_resp (session init_ok polls_published) = polls_published"
    by (simp add: session_def)
  have d: "JStr ''PUBLISH_COMPLETE'' \<noteq> JStr ''PROCESSING_UPLOAD''"
    by simp
  show ?thesis
    using poll_two_waits [of "session init_ok polls_published" "JStr ''PUBLISH_COMPLETE''"
        "JStr ''p1''" "''tok''"] a0 a1 a2 d
    by (simp add: p)
qed

section \<open>The initialization step and the session\<close>

lemma init_not_200:
  assumes "init_resp nt = Inr r" and "status_code r \<noteq> 200"
  shows "initialize_video_post nt n tok cap = ([CallPost n cap], Inr (JNull, None))"
  using assms by (simp add: initialize_video_post_def)

lemma rate_limit_body_cases:
  assumes "rate_limit_body js"
  obtains kvs e where "js = JDict kvs" and "map_of kvs ''error'' = Some (JDict e)"
    and "map_of e ''code'' = Some (JStr ''spam_risk_too_many_pending_share'')"
  using assms
  by (cases js) (auto split: option.splits json.splits)

lemma init_rate_limit:
  assumes "init_resp nt = Inr r" and "status_code r = 200" and "carries_rate_limit_code r"
  shows "initialize_video_post nt n tok cap = ([CallPost n cap], Inr (RATE_LIMIT, None))"
proof -
  from assms(3) obtain js where js: "json_body r = Some js" and rl: "rate_limit_body js"
    by (auto simp: carries_rate_limit_code_def split: option.splits)
  from rl obtain kvs e where "js = JDict kvs" and "map_of kvs ''error'' = Some (JDict e)"
    and "map_of e ''code'' = Some (JStr ''spam_risk_too_many_pending_share'')"
    by (rule rate_limit_body_cases)
  with assms(1,2) js show ?thesis
    by (simp add: initialize_video_post_def)
qed

lemma init_result_kinds:
  assumes "initialize_video_post nt n tok cap = (tr, Inr (pid, url))"
  shows "(url = None \<and> (pid = RATE_LIMIT \<or> pid = JNull)) \<or> (url \<noteq> None \<and> truthy pid)"
  using assms
  by (auto simp: initialize_video_post_def
           split: sum.splits option.splits if_splits json.splits bool.splits)

lemma upload_none_raises:
  assumes "upload_video_file w None v cap = (tr, r)"
  shows "r \<noteq> Inr b"
  using assms
  by (auto simp: upload_video_file_def requests_put_def split: sum.splits)

lemma session_outcome_kinds:
  assumes "direct_post_video w v tok = Some (tr, Inr out)"
  shows "out = JNull \<or> out = RATE_LIMIT \<or> truthy out"
  using assms
  apply (auto simp: direct_post_video_def Let_def not_tuple2_def
              split: sum.splits option.splits if_splits prod.splits)
  apply (frule init_result_kinds)
  apply (auto dest: upload_none_raises)
  done

lemma session_after_init:
  assumes "getsize w v = Inr n" and "path_exists w (txt_file_of v)"
    and "read_text w (txt_file_of v) = Inr c"
    and "initialize_video_post (net w v) n tok (py_strip c) = (tr1, Inr (pid, url))"
  shows "direct_post_video w v tok =
           (if pid = RATE_LIMIT then Some (tr1, Inr RATE_LIMIT)
            else
              (case upload_video_file w url v (py_strip c) of
                 (tr2, Inl e) \<Rightarrow> Some (tr1 @ tr2, Inl e)
               | (tr2, Inr ok) \<Rightarrow>
                   if \<not> ok then Some (tr1 @ tr2, Inr JNull)
                   else
                     (case poll_video_status (net w v) pid tok of
                        None \<Rightarrow> None
                      | Some (tr3, Inl e) \<Rightarrow> Some (tr1 @ tr2 @ tr3, Inl e)
                      | Some (tr3, Inr final_status) \<Rightarrow> Some (tr1 @ tr2 @ tr3, Inr pid))))"
  using assms by (simp add: direct_post_video_def Let_def not_tuple2_def)

text \<open>
  C1. An initialization answer without the rate-limit code and without both identifiers
  makes \<open>initialize_video_post\<close> return \<open>(None, None)\<close>. The session does not stop
  there: the pair is truthy, so the guard after the call lets it through, the transfer
  step is entered with no URL, and the session ends with the exception the HTTP library
  raises for it, not with a failure outcome.
\<close>

theorem bad_init_reaches_transfer:
  assumes "getsize w v = Inr n" and "path_exists w (txt_file_of v)"
    and "read_text w (txt_file_of v) = Inr c" and "read_bytes w v = Inr b"
    and "initialize_video_post (net w v) n tok (py_strip c) = (tr1, Inr (JNull, None))"
  shows "direct_post_video w v tok = Some (tr1 @ [CallPut None], Inl MissingSchema)"
  using assms(1,4)
  by (simp add: session_after_init [OF assms(1,2,3,5)] RATE_LIMIT_def
        upload_video_file_def requests_put_def)

theorem bad_init_reaches_transfer_witness:
  "initialize_video_post (net example_world ''/v/c.mp4'') 1000 ''tok'' (py_strip '' hello #tag  '')
     = ([CallPost 1000 ''hello #tag''], Inr (JNull, None))
   \<and> direct_post_video example_world ''/v/c.mp4'' ''tok''
     = Some ([CallPost 1000 ''hello #tag'', CallPut None], Inl MissingSchema)"
proof -
  have i: "initialize_video_post (net example_world ''/v/c.mp4'') 1000 ''tok'' (py_strip '' hello #tag  '')
     = ([CallPost 1000 ''hello #tag''], Inr (JNull, None))"
    by code_simp
  have g: "getsize example_world ''/v/c.mp4'' = Inr 1000" by code_simp
  have p: "path_exists example_world (txt_file_of ''/v/c.mp4'')" by code_simp
  have r: "read_text example_world (txt_file_of ''/v/c.mp4'') = Inr '' hello #tag  ''" by code_simp
  have b: "read_bytes example_world ''/v/c.mp4'' = Inr ''bytes''" by code_simp
  show ?thesis
    using bad_init_reaches_transfer [OF g p r b i] i by simp
qed

text \<open>
  C5. A video that is on disk and whose caption file does not exist: the session returns
  \<open>None\<close>, the failure outcome, and has made no call to the provider.
\<close>

theorem missing_caption_no_network:
  assumes "getsize w v = Inr n" and "\<not> path_exists w (txt_file_of v)"
  shows "direct_post_video w v tok = Some ([], Inr JNull)"
  using assms by (simp add: direct_post_video_def)

theorem missing_caption_no_network_witness:
  "getsize example_world ''/v/e.mp4'' = Inr 1000
   \<and> \<not> path_exists example_world (txt_file_of ''/v/e.mp4'')
   \<and> direct_post_video example_world ''/v/e.mp4'' ''tok'' = Some ([], Inr JNull)"
proof -
  have g: "getsize example_world ''/v/e.mp4'' = Inr 1000" by code_simp
  have p: "\<not> path_exists example_world (txt_file_of ''/v/e.mp4'')" by code_simp
  show ?thesis
    using missing_caption_no_network [OF g p, of "''tok''"] g p by simp
qed

text \<open>
  C6, as the code has it. An initialization answer with status 200 that carries the
  rate-limit code: the session returns \<open>RATE_LIMIT\<close> and its only call to the provider
  is the initialization request.
\<close>

theorem rate_limit_at_200:
  assumes "getsize w v = Inr n" and "path_exists w (txt_file_of v)"
    and "read_text w (txt_file_of v) = Inr c"
    and "init_resp (net w v) = Inr r" and "status_code r = 200" and "carries_rate_limit_code r"
  shows "direct_post_video w v tok = Some ([CallPost n (py_strip c)], Inr RATE_LIMIT)"
  by (simp add: session_after_init [OF assms(1,2,3) init_rate_limit [OF assms(4,5,6)]])

theorem rate_limit_at_200_witness:
  "init_resp (net example_world ''/v/a.mp4'') = init_rate_limited 200
   \<and> direct_post_video example_world ''/v/a.mp4'' ''tok''
       = Some ([CallPost 1000 ''hello #tag''], Inr RATE_LIMIT)"
proof -
  let ?r = "\<lparr> status_code = 200, json_body = Some (JDict [(''error'',
       JDict [(''code'', JStr ''spam_risk_too_many_pending_share'')])]) \<rparr>"
  have g: "getsize example_world ''/v/a.mp4'' = Inr 1000" by code_simp
  have p: "path_exists example_world (txt_file_of ''/v/a.mp4'')" by code_simp
  have r: "read_text example_world (txt_file_of ''/v/a.mp4'') = Inr '' hello #tag  ''" by code_simp
  have i: "init_resp (net example_world ''/v/a.mp4'') = Inr ?r" by code_simp
  have s: "status_code ?r = 200" by simp
  have c: "carries_rate_limit_code ?r" by code_simp
  have i': "init_resp (net example_world ''/v/a.mp4'') = init_rate_limited 200" by code_simp
  have st: "py_strip '' hello #tag  '' = ''hello #tag''" by code_simp
  show ?thesis
    using rate_limit_at_200 [OF g p r i s c, of "''tok''"] i' st by simp
qed

text \<open>
  The claim C6 as stated fails where the rate-limit code comes with a status other than
  200: the code is not looked at, and the session of \<open>g.mp4\<close> does not return
  \<open>RATE_LIMIT\<close>.
\<close>

theorem rate_limit_code_at_403_counterexample:
  "init_resp (net example_world ''/v/g.mp4'')
     = Inr \<lparr> status_code = 403, json_body = Some (JDict [(''error'',
         JDict [(''code'', JStr ''spam_risk_too_many_pending_share'')])]) \<rparr>
   \<and> carries_rate_limit_code \<lparr> status_code = 403, json_body = Some (JDict [(''error'',
         JDict [(''code'', JStr ''spam_risk_too_many_pending_share'')])]) \<rparr>
   \<and> direct_post_video example_world ''/v/g.mp4'' ''tok''
     = Some ([CallPost 1000 ''hello #tag'', CallPut None], Inl MissingSchema)
   \<and> direct_post_video example_world ''/v/g.mp4'' ''tok''
     \<noteq> Some ([CallPost 1000 ''hello #tag''], Inr RATE_LIMIT)"
  by code_simp

text \<open>
  C3, as the code has it. A session that gets its identifiers, transfers the video and
  whose poll step returns: the session returns the publish identifier, whatever the final
  status is, and the summary lists the video as uploaded.
\<close>

theorem session_returns_publish_id:
  assumes "getsize w v = Inr n" and "path_exists w (txt_file_of v)"
    and "read_text w (txt_file_of v) = Inr c"
    and "initialize_video_post (net w v) n tok (py_strip c) = (tr1, Inr (pid, url))"
    and "pid \<noteq> RATE_LIMIT"
    and "upload_video_file w url v (py_strip c) = (tr2, Inr True)"
    and "poll_video_status (net w v) pid tok = Some (tr3, Inr final_status)"
  shows "direct_post_video w v tok = Some (tr1 @ tr2 @ tr3, Inr pid)
         \<and> success_of [(v, pid)] = [basename v] \<and> failures_of [(v, pid)] = []"
proof -
  have run: "direct_post_video w v tok = Some (tr1 @ tr2 @ tr3, Inr pid)"
    using assms(5,6,7) by (simp add: session_after_init [OF assms(1,2,3,4)])
  have "url \<noteq> None"
  proof
    assume "url = None"
    with assms(6) have "upload_video_file w None v (py_strip c) = (tr2, Inr True)" by simp
    from upload_none_raises [OF this, of True] show False by simp
  qed
  with init_result_kinds [OF assms(4)] have t: "truthy pid" by auto
  then have "pid \<noteq> JNull" by auto
  with t assms(5) run show ?thesis
    by (simp add: success_of_def failures_of_def)
qed

theorem session_returns_publish_id_witness:
  "poll_video_status (net example_world ''/v/b.mp4'') (JStr ''p1'') ''tok''
     = Some ([CallGet, Sleep 5, CallGet, Sleep 5, CallGet], Inr (JStr ''PUBLISH_COMPLETE''))
   \<and> direct_post_video example_world ''/v/b.mp4'' ''tok''
     = Some ([CallPost 1000 ''hello #tag'', CallPut (Some ''https://upload.example/x''),
              CallGet, Sleep 5, CallGet, Sleep 5, CallGet], Inr (JStr ''p1''))
   \<and> success_of [(''/v/b.mp4'', JStr ''p1'')] = [''b.mp4'']"
proof -
  have g: "getsize example_world ''/v/b.mp4'' = Inr 1000" by code_simp
  have p: "path_exists example_world (txt_file_of ''/v/b.mp4'')" by code_simp
  have r: "read_text example_world (txt_file_of ''/v/b.mp4'') = Inr '' hello #tag  ''" by code_simp
  have i: "initialize_video_post (net example_world ''/v/b.mp4'') 1000 ''tok'' (py_strip '' hello #tag  '')
             = ([CallPost 1000 ''hello #tag''], Inr (JStr ''p1'', Some ''https://upload.example/x''))"
    by code_simp
  have n: "JStr ''p1'' \<noteq> RATE_LIMIT" by code_simp
  have u: "upload_video_file example_world (Some ''https://upload.example/x'') ''/v/b.mp4''
             (py_strip '' hello #tag  '') = ([CallPut (Some ''https://upload.example/x'')], Inr True)"
    by code_simp
  have q: "poll_video_status (net example_world ''/v/b.mp4'') (JStr ''p1'') ''tok''
             = Some ([CallGet, Sleep 5, CallGet, Sleep 5, CallGet], Inr (JStr ''PUBLISH_COMPLETE''))"
    by code_simp
  have b: "basename ''/v/b.mp4'' = ''b.mp4''" by code_simp
  show ?thesis
    using session_returns_publish_id [OF g p r i n u q] q b by simp
qed

text \<open>
  The claim C3 as stated fails where the status endpoint reports \<open>FAILED\<close>: the poll step
  of \<open>d.mp4\<close> returns \<open>FAILED\<close>, the session returns the publish identifier, and the
  summary lists the video as uploaded.
\<close>

theorem failed_status_counts_as_success_counterexample:
  "poll_video_status (net example_world ''/v/d.mp4'') (JStr ''p1'') ''tok''
     = Some ([CallGet], Inr (JStr ''FAILED''))
   \<and> direct_post_video example_world ''/v/d.mp4'' ''tok''
     = Some ([CallPost 1000 ''hello #tag'', CallPut (Some ''https://upload.example/x''), CallGet],
             Inr (JStr ''p1''))
   \<and> success_of [(''/v/d.mp4'', JStr ''p1'')] = [''d.mp4'']
   \<and> failures_of [(''/v/d.mp4'', JStr ''p1'')] = []"
  by code_simp

section \<open>The batch and the summary\<close>

lemma await_all_returned:
  assumes "\<forall>f\<in>set files. run f = Some (tr f, Inr (out f))"
  shows "await_all (map (\<lambda>f. (f, run f)) files) = Some (map (\<lambda>f. (f, tr f, Inr (out f))) files)"
  using assms by (induction files) simp_all

lemma collect_results_returned:
  "collect_results (map (\<lambda>x. (g x, Inr (h x))) xs) acc = Inr (acc @ map (\<lambda>x. (g x, h x)) xs)"
  by (induction xs arbitrary: acc) simp_all

text \<open>
  C2, as the code has it. When every session of a batch of N videos returns a value,
  the driver returns exactly N pairs, in the order of completion, and the outcome paired
  with a video is the one its own session returned: a \<open>None\<close> or \<open>RATE_LIMIT\<close> of one
  session changes nothing for the others.
\<close>

theorem batch_of_returning_sessions:
  assumes "completion_order order (length files)"
    and "\<forall>f\<in>set files. \<exists>tr. direct_post_video w f tok = Some (tr, Inr (out f))"
  shows "run_batch w tok order files = Some (Inr (map (\<lambda>i. (files ! i, out (files ! i))) order))
         \<and> length (map (\<lambda>i. (files ! i, out (files ! i))) order) = length files"
proof -
  from bchoice [OF assms(2)] obtain tr where
    tr: "\<forall>f\<in>set files. direct_post_video w f tok = Some (tr f, Inr (out f))"
    by blast
  have aw: "await_all (map (\<lambda>f. (f, direct_post_video w f tok)) files)
              = Some (map (\<lambda>f. (f, tr f, Inr (out f))) files)"
    by (rule await_all_returned [OF tr])
  have inrange: "\<forall>i\<in>set order. i < length files"
    using assms(1) by (auto simp: completion_order_def)
  then have pick: "map (\<lambda>i. case map (\<lambda>f. (f, tr f, Inr (out f))) files ! i of (f, t, r) \<Rightarrow> (f, r)) order
                   = map (\<lambda>i. (files ! i, Inr (out (files ! i)))) order"
    by simp
  have len: "length order = length files"
  proof -
    from assms(1) have d: "distinct order" and s: "set order = {0 ..< length files}"
      by (simp_all add: completion_order_def)
    from d have "card (set order) = length order" by (rule distinct_card)
    moreover from s have "card (set order) = length files" by simp
    ultimately show ?thesis by simp
  qed
  show ?thesis
    unfolding run_batch_def aw option.case pick
    using collect_results_returned [of "\<lambda>i. files ! i" "\<lambda>i. out (files ! i)" order "[]"] len
    by simp
qed

theorem batch_of_returning_sessions_witness:
  "completion_order [1, 0] (length [''/v/a.mp4'', ''/v/b.mp4''])
   \<and> run_batch example_world ''tok'' [1, 0] [''/v/a.mp4'', ''/v/b.mp4'']
       = Some (Inr [(''/v/b.mp4'', JStr ''p1''), (''/v/a.mp4'', RATE_LIMIT)])"
proof -
  let ?out = "\<lambda>f. if f = ''/v/a.mp4'' then RATE_LIMIT else JStr ''p1''"
  have c: "completion_order [1, 0] (length [''/v/a.mp4'', ''/v/b.mp4''])"
    by code_simp
  have a: "direct_post_video example_world ''/v/a.mp4'' ''tok''
             = Some ([CallPost 1000 ''hello #tag''], Inr RATE_LIMIT)"
    by code_simp
  have b: "direct_post_video example_world ''/v/b.mp4'' ''tok''
             = Some ([CallPost 1000 ''hello #tag'', CallPut (Some ''https://upload.example/x''),
                      CallGet, Sleep 5, CallGet, Sleep 5, CallGet], Inr (JStr ''p1''))"
    by code_simp
  have s: "\<forall>f\<in>set [''/v/a.mp4'', ''/v/b.mp4''].
             \<exists>tr. direct_post_video example_world f ''tok'' = Some (tr, Inr (?out f))"
    using a b by simp
  show ?thesis
    using batch_of_returning_sessions [OF c s] c by simp
qed

text \<open>
  The claim C2 as stated fails where a session ends with an exception: nothing converts
  it to an outcome, the driver raises it again at \<open>future.result()\<close>, and the outcome
  of the session that did return is lost with it.
\<close>

theorem exception_crosses_pool_counterexample:
  "completion_order [1, 0] (length [''/v/b.mp4'', ''/v/f.mp4''])
   \<and> direct_post_video example_world ''/v/b.mp4'' ''tok''
       = Some ([CallPost 1000 ''hello #tag'', CallPut (Some ''https://upload.example/x''),
                CallGet, Sleep 5, CallGet, Sleep 5, CallGet], Inr (JStr ''p1''))
   \<and> direct_post_video example_world ''/v/f.mp4'' ''tok''
       = Some ([CallPost 1000 ''hello #tag''], Inl ConnectionError)
   \<and> run_batch example_world ''tok'' [1, 0] [''/v/b.mp4'', ''/v/f.mp4''] = Some (Inl ConnectionError)"
  by code_simp

lemma summary_split:
  "length (filter (\<lambda>(f, pub). pub = JNull \<or> pub = RATE_LIMIT) rs)
     = length (filter (\<lambda>(f, pub). pub = JNull) rs) + length (filter (\<lambda>(f, pub). pub = RATE_LIMIT) rs)"
  by (induction rs) (auto simp: RATE_LIMIT_def)

lemma summary_total:
  assumes "list_all (\<lambda>(f, pub). pub = JNull \<or> pub = RATE_LIMIT \<or> truthy pub) rs"
  shows "length (filter (\<lambda>(f, pub). truthy pub \<and> pub \<noteq> RATE_LIMIT) rs)
           + length (filter (\<lambda>(f, pub). pub = JNull \<or> pub = RATE_LIMIT) rs) = length rs"
  using assms by (induction rs) (auto simp: RATE_LIMIT_def)

text \<open>
  C4, as the code has it. The summary has two classes, not three. Over the outcomes a
  session can return, every video is counted once, as uploaded or as failed; the failed
  count is the number of \<open>None\<close> outcomes plus the number of \<open>RATE_LIMIT\<close> outcomes, and
  what tells them apart is the outcome printed beside each failed file.
\<close>

theorem summary_two_classes:
  assumes "list_all (\<lambda>(f, pub). pub = JNull \<or> pub = RATE_LIMIT \<or> truthy pub) rs"
  shows "successfully_uploaded (upload_summary rs) + failed_uploads (upload_summary rs)
           = total_processed (upload_summary rs)
         \<and> failed_uploads (upload_summary rs)
           = length (filter (\<lambda>(f, pub). pub = JNull) rs) + length (filter (\<lambda>(f, pub). pub = RATE_LIMIT) rs)
         \<and> failed_files (upload_summary rs)
           = map (\<lambda>(f, pub). (basename f, pub)) (filter (\<lambda>(f, pub). pub = JNull \<or> pub = RATE_LIMIT) rs)
         \<and> uploaded_files (upload_summary rs)
           = map (\<lambda>(f, pub). basename f) (filter (\<lambda>(f, pub). \<not> (pub = JNull \<or> pub = RATE_LIMIT)) rs)"
proof -
  have same: "filter (\<lambda>(f, pub). truthy pub \<and> pub \<noteq> RATE_LIMIT) rs
                = filter (\<lambda>(f, pub). \<not> (pub = JNull \<or> pub = RATE_LIMIT)) rs"
    using assms by (induction rs) auto
  show ?thesis
    using summary_total [OF assms] summary_split [of rs] same
    by (simp add: upload_summary_def success_of_def failures_of_def)
qed

theorem summary_two_classes_witness:
  "list_all (\<lambda>(f, pub). pub = JNull \<or> pub = RATE_LIMIT \<or> truthy pub)
     [(''/v/b.mp4'', JStr ''p1''), (''/v/a.mp4'', RATE_LIMIT)]
   \<and> successfully_uploaded (upload_summary [(''/v/b.mp4'', JStr ''p1''), (''/v/a.mp4'', RATE_LIMIT)]) = 1
   \<and> failed_uploads (upload_summary [(''/v/b.mp4'', JStr ''p1''), (''/v/a.mp4'', RATE_LIMIT)]) = 1
   \<and> total_processed (upload_summary [(''/v/b.mp4'', JStr ''p1''), (''/v/a.mp4'', RATE_LIMIT)]) = 2"
proof -
  have h: "list_all (\<lambda>(f, pub). pub = JNull \<or> pub = RATE_LIMIT \<or> truthy pub)
     [(''/v/b.mp4'', JStr ''p1''), (''/v/a.mp4'', RATE_LIMIT)]"
    by (simp add: RATE_LIMIT_def)
  show ?thesis
    using summary_two_classes [OF h] h
    by (simp add: RATE_LIMIT_def upload_summary_def success_of_def failures_of_def)
qed

text \<open>
  The claim C4 as stated fails on its own example: with \<open>a.mp4\<close> rate limited and
  \<open>b.mp4\<close> completed, the summary reports one upload and one failed upload, the
  rate-limited one.
\<close>

theorem rate_limited_counted_failed_counterexample:
  "run_batch example_world ''tok'' [1, 0] [''/v/a.mp4'', ''/v/b.mp4'']
     = Some (Inr [(''/v/b.mp4'', JStr ''p1''), (''/v/a.mp4'', RATE_LIMIT)])
   \<and> upload_summary [(''/v/b.mp4'', JStr ''p1''), (''/v/a.mp4'', RATE_LIMIT)]
     = \<lparr> total_processed = 2, successfully_uploaded = 1, uploaded_files = [''b.mp4''],
         failed_uploads = 1, failed_files = [(''a.mp4'', RATE_LIMIT)] \<rparr>
   \<and> failed_uploads (upload_summary [(''/v/b.mp4'', JStr ''p1''), (''/v/a.mp4'', RATE_LIMIT)]) \<noteq> 0"
  by code_simp

section \<open>PKCE\<close>

lemma verifier_chars: "list_all unreserved (ascii_letters @ digits @ ''-._~'')"
  by code_simp


text \<open>
  C9. A verifier generated with length \<open>len\<close> has \<open>len\<close> characters (none when
  \<open>len\<close> is negative), 64 by default, each of them a letter, a digit or one of the four
  marks; and the challenge of an authorization attempt is computed from its verifier
  alone, whatever the random source was.
\<close>

theorem pkce_verifier_and_challenge:
  "length (generate_code_verifier rng len) = nat len
   \<and> list_all unreserved (generate_code_verifier rng len)
   \<and> length (generate_code_verifier_default rng) = 64
   \<and> fst (snd (auth_session sha256 rng)) = generate_code_challenge sha256 (fst (auth_session sha256 rng))"
proof -
  let ?allowed = "ascii_letters @ digits @ ''-._~''"
  have ne: "length ?allowed > 0" by (simp add: ascii_letters_def)
  have "random_choice rng k ?allowed \<in> set ?allowed" for k
    unfolding random_choice_def using ne by (intro nth_mem mod_less_divisor)
  with verifier_chars have "unreserved (random_choice rng k ?allowed)" for k
    by (simp only: list_all_iff)
  then have "list_all unreserved (generate_code_verifier rng len)"
    by (simp add: generate_code_verifier_def list_all_iff)
  then show ?thesis
    by (simp add: generate_code_verifier_def generate_code_verifier_default_def auth_session_def Let_def)
qed

theorem pkce_verifier_and_challenge_witness:
  "generate_code_verifier (\<lambda>k. 30 * k) 3 = ''aE8''
   \<and> length (generate_code_verifier (\<lambda>k. 30 * k) 3) = 3
   \<and> list_all unreserved ''aE8''"
proof -
  have v: "generate_code_verifier (\<lambda>k. 30 * k) 3 = ''aE8''" by code_simp
  show ?thesis
    using pkce_verifier_and_challenge [of "\<lambda>k. 30 * k" 3 id] v by simp
qed

section \<open>The caption artifact across the two programs\<close>






end
